theory Spec2Isabelle
  imports Main
begin

section \<open>Values, errors and the observable state\<close>

text \<open>
  The sample module is Python. Its functions receive and return dynamically typed values;
  the ones that occur here are \<open>None\<close>, booleans, integers (unbounded, hence \<open>int\<close>) and
  strings.
\<close>

datatype pyval = PyNone | PyBool bool | PyInt int | PyStr string

text \<open>
  An exception is a value. \<open>ValueError\<close> carries the message the source gives it;
  \<open>ZeroDivisionError\<close> is what the operator \<open>%\<close> raises on a zero divisor.
\<close>

datatype error = ValueError string | ZeroDivisionError

text \<open>
  The only state a function of the module can touch is the standard output, written by
  \<open>print\<close>. A call takes the state and returns its outcome (\<open>Inl\<close> an exception,
  \<open>Inr\<close> the returned value) together with the state it leaves.
\<close>

record world =
  stdout :: string

type_synonym outcome = "(error + pyval) \<times> world"

subsection \<open>Built-in operations the module uses\<close>

text \<open>Truth value testing, as \<open>not x\<close> and \<open>if x\<close> apply it.\<close>

fun truthy :: "pyval \<Rightarrow> bool" where
  "truthy PyNone = False"
| "truthy (PyBool b) = b"
| "truthy (PyInt i) = (i \<noteq> 0)"
| "truthy (PyStr s) = (s \<noteq> [])"

text \<open>
  \<open>a % b\<close> on integers: the remainder has the sign of the divisor (as \<open>mod\<close> on \<open>int\<close>),
  and a zero divisor raises.
\<close>

definition py_mod :: "int \<Rightarrow> int \<Rightarrow> error + int" where
  "py_mod a b = (if b = 0 then Inl ZeroDivisionError else Inr (a mod b))"





section \<open>The functions of \<open>sample.py\<close>\<close>

text \<open>\<^verbatim>\<open>def login(): pass\<close>: the body does nothing and the call returns \<open>None\<close>.\<close>

definition login :: "world \<Rightarrow> outcome" where
  "login w = (Inr PyNone, w)"

text \<open>
  \<^verbatim>\<open>def validate(username):
    if not username:
        raise ValueError("Username required")\<close>
\<close>

definition validate :: "pyval \<Rightarrow> world \<Rightarrow> outcome" where
  "validate username w =
     (if \<not> truthy username then (Inl (ValueError ''Username required''), w)
      else (Inr PyNone, w))"

text \<open>\<^verbatim>\<open>def fake_auth(): return True\<close>\<close>

definition fake_auth :: "world \<Rightarrow> outcome" where
  "fake_auth w = (Inr (PyBool True), w)"

text \<open>
  \<^verbatim>\<open>def is_leap(year):
    return year % 4 == 0 and (year % 100 != 0 or year % 400 == 0)\<close>

  \<open>and\<close> and \<open>or\<close> evaluate their right operand only when the left one does not decide
  the result, so the three remainders are computed in this order and only as far as
  needed; an exception in any of them ends the call.
\<close>

definition is_leap :: "int \<Rightarrow> world \<Rightarrow> outcome" where
  "is_leap year w =
     (case py_mod year 4 of
        Inl e \<Rightarrow> (Inl e, w)
      | Inr r4 \<Rightarrow>
          if \<not> (r4 = 0) then (Inr (PyBool False), w)
          else (case py_mod year 100 of
                  Inl e \<Rightarrow> (Inl e, w)
                | Inr r100 \<Rightarrow>
                    if r100 \<noteq> 0 then (Inr (PyBool True), w)
                    else (case py_mod year 400 of
                            Inl e \<Rightarrow> (Inl e, w)
                          | Inr r400 \<Rightarrow> (Inr (PyBool (r400 = 0)), w))))"


text \<open>\<^verbatim>\<open>def old_auth(): return False\<close>\<close>

definition old_auth :: "world \<Rightarrow> outcome" where
  "old_auth w = (Inr (PyBool False), w)"

subsection \<open>Vocabulary of the statements\<close>

text \<open>
  The ASCII whitespace characters (Python's \<open>string.whitespace\<close>): space, tab, line
  feed, vertical tab, form feed and carriage return. No function of the module mentions
  them; the set only delimits the inputs of the statement on blank usernames.
\<close>

definition whitespace :: "char set" where
  "whitespace = {CHR '' '', CHR 0x09, CHR 0x0A, CHR 0x0B, CHR 0x0C, CHR 0x0D}"

section \<open>The leap-year predicate\<close>

lemma py_mod_nonzero: "b \<noteq> 0 \<Longrightarrow> py_mod a b = Inr (a mod b)"
  by (simp add: py_mod_def)

text \<open>
  C1. For every integer year, \<open>is_leap\<close> returns true if the year is divisible by 4 and
  (not divisible by 100 or divisible by 400), and false otherwise.
\<close>

theorem is_leap_gregorian:
  "is_leap year w =
     (Inr (PyBool (4 dvd year \<and> (\<not> 100 dvd year \<or> 400 dvd year))), w)"
  by (simp add: is_leap_def py_mod_nonzero dvd_eq_mod_eq_0)

theorem is_leap_gregorian_witness:
  "is_leap 1900 \<lparr>stdout = ''''\<rparr> = (Inr (PyBool False), \<lparr>stdout = ''''\<rparr>) \<and>
   is_leap 2000 \<lparr>stdout = ''''\<rparr> = (Inr (PyBool True), \<lparr>stdout = ''''\<rparr>) \<and>
   is_leap (- 96) \<lparr>stdout = ''''\<rparr> = (Inr (PyBool True), \<lparr>stdout = ''''\<rparr>)"
  using is_leap_gregorian [of 1900 "\<lparr>stdout = ''''\<rparr>"]
    is_leap_gregorian [of 2000 "\<lparr>stdout = ''''\<rparr>"]
    is_leap_gregorian [of "- 96" "\<lparr>stdout = ''''\<rparr>"]
  by simp

text \<open>
  C4. \<open>is_leap(2000)\<close> is true, \<open>is_leap(1900)\<close> is false, \<open>is_leap(2024)\<close> is true and
  \<open>is_leap(2023)\<close> is false.
\<close>

theorem is_leap_examples:
  "fst (is_leap 2000 w) = Inr (PyBool True) \<and>
   fst (is_leap 1900 w) = Inr (PyBool False) \<and>
   fst (is_leap 2024 w) = Inr (PyBool True) \<and>
   fst (is_leap 2023 w) = Inr (PyBool False)"
  by (simp add: is_leap_def py_mod_nonzero)

text \<open>
  C3. The predicate has period 400: for every integer \<open>y\<close>, \<open>is_leap(y)\<close> and
  \<open>is_leap(y + 400)\<close> are the same.
\<close>

theorem is_leap_period_400: "is_leap (y + 400) w = is_leap y w"
proof -
  have m4: "(y + 400) mod 4 = y mod 4"
    using mod_mult_self2 [of y 4 100] by simp
  have m100: "(y + 400) mod 100 = y mod 100"
    using mod_mult_self2 [of y 100 4] by simp
  have m400: "(y + 400) mod 400 = y mod 400"
    by simp
  show ?thesis
    by (simp only: is_leap_def py_mod_def m4 m100 m400)
qed

text \<open>
  C6. \<open>is_leap\<close> is total on the integers, negative ones included: every call returns,
  raises nothing (none of the three divisors is zero) and its value is a boolean.
\<close>

theorem is_leap_total: "\<exists>b. is_leap year w = (Inr (PyBool b), w)"
  by (auto simp add: is_leap_def py_mod_nonzero)

text \<open>
  C8. \<open>is_leap\<close> is pure and deterministic: the outcome of a call depends on the year
  only, not on the state in which the call is made, and the call leaves the state as it
  found it.
\<close>

theorem is_leap_pure:
  "fst (is_leap y w) = fst (is_leap y w') \<and> snd (is_leap y w) = w"
  by (simp add: is_leap_def py_mod_nonzero)

section \<open>The validator\<close>


text \<open>
  C5. A username made of one or more whitespace characters is accepted: the test is on
  emptiness, not on blankness.
\<close>

theorem validate_whitespace:
  assumes "s \<noteq> []" and "set s \<subseteq> whitespace"
  shows "validate (PyStr s) w = (Inr PyNone, w)"
  using assms(1) by (simp add: validate_def)

theorem validate_whitespace_witness:
  "[CHR '' '', CHR 0x09] \<noteq> [] \<and> set [CHR '' '', CHR 0x09] \<subseteq> whitespace \<and>
   validate (PyStr [CHR '' '', CHR 0x09]) \<lparr>stdout = ''''\<rparr> =
     (Inr PyNone, \<lparr>stdout = ''''\<rparr>)"
proof -
  have ne: "[CHR '' '', CHR 0x09] \<noteq> []"
    by simp
  have ws: "set [CHR '' '', CHR 0x09] \<subseteq> whitespace"
    by (simp add: whitespace_def)
  show ?thesis
    using ne ws validate_whitespace [OF ne ws, of "\<lparr>stdout = ''''\<rparr>"] by simp
qed

text \<open>
  C7. On a non-empty username \<open>validate\<close> returns \<open>None\<close> and has no effect: the state
  after the call is the state before it, and the outcome is the same in whatever state the
  call is made.
\<close>

theorem validate_no_effect:
  assumes "s \<noteq> []"
  shows "validate (PyStr s) w = (Inr PyNone, w) \<and>
         fst (validate (PyStr s) w') = fst (validate (PyStr s) w)"
  using assms by (simp add: validate_def)

theorem validate_no_effect_witness:
  "''alice'' \<noteq> [] \<and>
   validate (PyStr ''alice'') \<lparr>stdout = ''log''\<rparr> = (Inr PyNone, \<lparr>stdout = ''log''\<rparr>) \<and>
   fst (validate (PyStr ''alice'') \<lparr>stdout = ''''\<rparr>) =
     fst (validate (PyStr ''alice'') \<lparr>stdout = ''log''\<rparr>)"
proof -
  have ne: "''alice'' \<noteq> []"
    by simp
  show ?thesis
    using ne validate_no_effect [OF ne, of "\<lparr>stdout = ''log''\<rparr>" "\<lparr>stdout = ''''\<rparr>"]
    by simp
qed

section \<open>The placeholders\<close>

text \<open>
  C9. \<open>fake_auth()\<close> returns \<open>True\<close> and \<open>old_auth()\<close> returns \<open>False\<close> on every
  call; neither takes an argument, raises or changes the state.
\<close>

theorem auth_constants:
  "fake_auth w = (Inr (PyBool True), w) \<and> old_auth w = (Inr (PyBool False), w)"
  by (simp add: fake_auth_def old_auth_def)

text \<open>
  C10. \<open>login()\<close> succeeds silently: every call returns \<open>None\<close>, raises no error of
  any kind and leaves the state unchanged.
\<close>

theorem login_silent:
  "login w = (Inr PyNone, w) \<and> (\<forall>e. fst (login w) \<noteq> Inl e)"
  by (simp add: login_def)

end
